theory Spec2Isabelle
  imports Main "HOL-Library.Word"
begin

section \<open>Values of the Go runtime and of package net\<close>

text \<open>
  A Go call either returns or panics. Functions of \<^verbatim>\<open>net_wasip1.go\<close> that call a
  method on a \<^verbatim>\<open>net.Addr\<close> interface value panic when that value is the nil
  interface; the panic is a result of the model. Pointers to structs
  (\<^verbatim>\<open>*net.TCPAddr\<close> and the like) are modelled by the struct they point to, so a
  typed nil pointer is outside the model.
\<close>

datatype 'a outcome = Returns 'a | Panics

type_synonym byte = "8 word"

text \<open>
  \<^verbatim>\<open>net.IP\<close> is a byte slice: \<open>None\<close> is the nil slice, \<open>Some bs\<close> a non-nil
  slice with the elements \<open>bs\<close>.
\<close>

type_synonym IP = "byte list option"

definition len :: "IP \<Rightarrow> nat" where
  "len ip = (case ip of None \<Rightarrow> 0 | Some bs \<Rightarrow> length bs)"

definition elems :: "IP \<Rightarrow> byte list" where
  "elems ip = (case ip of None \<Rightarrow> [] | Some bs \<Rightarrow> bs)"

definition IPv4len :: nat where
  "IPv4len = 4"

definition IPv6len :: nat where
  "IPv6len = 16"

text \<open>
  \<^verbatim>\<open>net.IP.To4\<close> of the standard library:
  \<^verbatim>\<open>
  func (ip IP) To4() IP {
      if len(ip) == IPv4len { return ip }
      if len(ip) == IPv6len && isZeros(ip[0:10]) && ip[10] == 0xff && ip[11] == 0xff {
          return ip[12:16]
      }
      return nil
  }
  \<close>
\<close>

fun isZeros :: "byte list \<Rightarrow> bool" where
  "isZeros [] = True"
| "isZeros (b # bs) = (if b \<noteq> 0 then False else isZeros bs)"

definition To4 :: "IP \<Rightarrow> IP" where
  "To4 ip =
     (if len ip = IPv4len then ip
      else if len ip = IPv6len \<and> isZeros (take 10 (elems ip))
              \<and> elems ip ! 10 = 0xff \<and> elems ip ! 11 = 0xff
           then Some (take 4 (drop 12 (elems ip)))
      else None)"

text \<open>The twelve bytes that precede an IPv4 address stored in a 16-byte container.\<close>

definition v4InV6Prefix :: "byte list" where
  "v4InV6Prefix = [0, 0, 0, 0, 0, 0, 0, 0, 0, 0, 0xff, 0xff]"

text \<open>
  The conversion of a slice to an array of \<open>n\<close> elements, \<^verbatim>\<open>([4]byte)(ipv4)\<close>: it
  panics (\<open>None\<close>) when the slice is shorter than the array.
\<close>

definition toArray :: "nat \<Rightarrow> IP \<Rightarrow> byte list option" where
  "toArray n ip = (if len ip < n then None else Some (take n (elems ip)))"

text \<open>The struct \<^verbatim>\<open>netAddr\<close> and its two methods.\<close>

record netAddr =
  network :: string
  address :: string

definition netAddr_Network :: "netAddr \<Rightarrow> string" where
  "netAddr_Network na = address na"

definition netAddr_String :: "netAddr \<Rightarrow> string" where
  "netAddr_String na = address na"

text \<open>
  The interface \<^verbatim>\<open>net.Addr\<close>: the nil interface, the four address types of package
  net that the type switches name (fields in the order of their declarations:
  \<^verbatim>\<open>UnixAddr{Name, Net}\<close>, \<^verbatim>\<open>TCPAddr{IP, Port, Zone}\<close>,
  \<^verbatim>\<open>UDPAddr{IP, Port, Zone}\<close>, \<^verbatim>\<open>IPAddr{IP, Zone}\<close>), and the
  \<^verbatim>\<open>*netAddr\<close> of this package. A port is a Go \<^verbatim>\<open>int\<close>; the code never
  computes with it.
\<close>

datatype net_Addr =
    NilAddr
  | UnixAddr string string
  | TCPAddr IP int string
  | UDPAddr IP int string
  | IPAddr IP string
  | PtrNetAddr netAddr

text \<open>
  \<^verbatim>\<open>addr.Network()\<close>: the methods of package net return \<^verbatim>\<open>"tcp"\<close>,
  \<^verbatim>\<open>"udp"\<close>, \<^verbatim>\<open>"ip"\<close> and, for a unix address, its \<^verbatim>\<open>Net\<close> field.
\<close>

fun Addr_Network :: "net_Addr \<Rightarrow> string outcome" where
  "Addr_Network NilAddr = Panics"
| "Addr_Network (UnixAddr name' net) = Returns net"
| "Addr_Network (TCPAddr ip port' zone) = Returns ''tcp''"
| "Addr_Network (UDPAddr ip port' zone) = Returns ''udp''"
| "Addr_Network (IPAddr ip zone) = Returns ''ip''"
| "Addr_Network (PtrNetAddr na) = Returns (netAddr_Network na)"

text \<open>
  Errors. \<^verbatim>\<open>errors.New(s)\<close> is \<open>errorString s\<close>. The \<^verbatim>\<open>Addr\<close> field of a
  \<^verbatim>\<open>net.AddrError\<close> holds \<^verbatim>\<open>addr.String()\<close>, the text the standard library
  prints for the address; the model keeps the address that is printed. \<open>OSError\<close> is
  an error reported by the platform.
\<close>

datatype error =
    errorString string
  | EPROTOTYPE
  | AddrError string net_Addr
  | OSError nat

section \<open>The sockaddr model\<close>

text \<open>
  Modelled from the spec: the declarations of \<^verbatim>\<open>sockaddr\<close>,
  \<^verbatim>\<open>sockaddrInet4\<close>, \<^verbatim>\<open>sockaddrInet6\<close> and \<^verbatim>\<open>sockaddrUnix\<close> are in another file
  of the package. The spec gives \<open>Inet4{address: 4 bytes, port}\<close>,
  \<open>Inet6{address: 16 bytes, port}\<close> and \<open>Local{name}\<close>; the uses in
  \<^verbatim>\<open>net_wasip1.go\<close> fix the fields \<^verbatim>\<open>addr\<close> (a byte array), \<^verbatim>\<open>port\<close> (an
  \<^verbatim>\<open>int\<close>) and \<^verbatim>\<open>name\<close> (a string). \<open>NilSockaddr\<close> is the nil interface.
  An array is the list of its elements.
\<close>

datatype sockaddr =
    NilSockaddr
  | SockaddrInet4 "byte list" int
  | SockaddrInet6 "byte list" int
  | SockaddrUnix string

text \<open>
  The constants \<^verbatim>\<open>AF_UNIX\<close>, \<^verbatim>\<open>AF_INET\<close>, \<^verbatim>\<open>AF_INET6\<close>,
  \<^verbatim>\<open>SOCK_STREAM\<close> and \<^verbatim>\<open>SOCK_DGRAM\<close> are declared in another file of the
  package: the functions that return them take their values as a parameter.
\<close>

record sysconsts =
  AF_UNIX :: int
  AF_INET :: int
  AF_INET6 :: int
  SOCK_STREAM :: int
  SOCK_DGRAM :: int

section \<open>Classification and encoding of an address\<close>

definition family :: "sysconsts \<Rightarrow> net_Addr \<Rightarrow> int" where
  "family k addr =
     (case addr of
        UnixAddr name' net \<Rightarrow> AF_UNIX k
      | _ \<Rightarrow>
        (let ip = (case addr of
                     TCPAddr i p z \<Rightarrow> i
                   | UDPAddr i p z \<Rightarrow> i
                   | IPAddr i z \<Rightarrow> i
                   | _ \<Rightarrow> None)
         in if To4 ip \<noteq> None then AF_INET k
            else if len ip = IPv6len then AF_INET6 k
            else AF_INET k))"

definition socketType :: "sysconsts \<Rightarrow> net_Addr \<Rightarrow> (int \<times> error option) outcome" where
  "socketType k addr =
     (case Addr_Network addr of
        Panics \<Rightarrow> Panics
      | Returns n \<Rightarrow>
          if n = ''tcp'' \<or> n = ''unix'' then Returns (SOCK_STREAM k, None)
          else if n = ''udp'' \<or> n = ''unixgram'' then Returns (SOCK_DGRAM k, None)
          else Returns (- 1, Some EPROTOTYPE))"

definition socketAddress :: "net_Addr \<Rightarrow> (sockaddr \<times> error option) outcome" where
  "socketAddress addr =
     (case addr of
        UnixAddr name' net \<Rightarrow> Returns (SockaddrUnix name', None)
      | _ \<Rightarrow>
        (let (ip, port') = (case addr of
                              TCPAddr i p z \<Rightarrow> (i, p)
                            | UDPAddr i p z \<Rightarrow> (i, p)
                            | IPAddr i z \<Rightarrow> (i, 0)
                            | _ \<Rightarrow> (None, 0));
             ipv4 = To4 ip
         in if ipv4 \<noteq> None then
              (case toArray 4 ipv4 of
                 None \<Rightarrow> Panics
               | Some a \<Rightarrow> Returns (SockaddrInet4 a port', None))
            else if len ip = IPv6len then
              (case toArray 16 ip of
                 None \<Rightarrow> Panics
               | Some a \<Rightarrow> Returns (SockaddrInet6 a port', None))
            else
              (case addr of
                 NilAddr \<Rightarrow> Panics
               | _ \<Rightarrow> Returns (NilSockaddr, Some (AddrError ''unsupported address type'' addr)))))"

section \<open>Decoding a sockaddr\<close>

fun sockaddrToUnixAddr :: "sockaddr \<Rightarrow> net_Addr" where
  "sockaddrToUnixAddr (SockaddrUnix name') = UnixAddr name' ''unix''"
| "sockaddrToUnixAddr a = NilAddr"

fun sockaddrIPAndPort :: "sockaddr \<Rightarrow> IP \<times> int" where
  "sockaddrIPAndPort (SockaddrInet4 a p) = (Some a, p)"
| "sockaddrIPAndPort (SockaddrInet6 a p) = (Some a, p)"
| "sockaddrIPAndPort a = (None, 0)"

text \<open>The composite literals leave \<^verbatim>\<open>Zone\<close> at its zero value, the empty string.\<close>

definition sockaddrToTCPAddr :: "sockaddr \<Rightarrow> net_Addr" where
  "sockaddrToTCPAddr addr = (let (ip, port') = sockaddrIPAndPort addr in TCPAddr ip port' '''')"

definition sockaddrToUDPAddr :: "sockaddr \<Rightarrow> net_Addr" where
  "sockaddrToUDPAddr addr = (let (ip, port') = sockaddrIPAndPort addr in UDPAddr ip port' '''')"

text \<open>
  The round trip of the specification, \<open>decode(encode(e), matching_kind)\<close>:
  \<^verbatim>\<open>socketAddress\<close> followed by the decoder of the matching connection kind. It is
  \<open>None\<close> when \<^verbatim>\<open>socketAddress\<close> gives no sockaddr.
\<close>

definition roundtrip :: "(sockaddr \<Rightarrow> net_Addr) \<Rightarrow> net_Addr \<Rightarrow> net_Addr option" where
  "roundtrip decode e =
     (case socketAddress e of
        Returns (sa, None) \<Rightarrow> Some (decode sa)
      | _ \<Rightarrow> None)"

section \<open>Connections\<close>

text \<open>
  The operations the code issues on a connection and its descriptor, in the order
  they happen: the two name queries (with the descriptor they are given) and
  \<^verbatim>\<open>c.Close()\<close>.
\<close>

datatype event = EvGetsockname int | EvGetpeername int | EvClose

text \<open>
  The dynamic type of a connection: the three types the type switch of
  \<^verbatim>\<open>makeConn\<close> names, any other type that implements \<^verbatim>\<open>syscall.Conn\<close>, and
  any type that does not.
\<close>

datatype conn_type = UnixConn | UDPConn | TCPConn | OtherSyscallConn | OtherConn

text \<open>
  \<^verbatim>\<open>rawConn.Control(f)\<close> either fails without invoking \<open>f\<close> or invokes \<open>f\<close> on
  the descriptor and returns nil, as the raw connections of package net do.
\<close>

datatype control = Control_fails error | Control_invokes

text \<open>
  A connection other than the overlay of this package: its dynamic type, the error of
  \<^verbatim>\<open>SyscallConn()\<close> (nil when it gives a raw connection), what \<^verbatim>\<open>Control\<close> does,
  and the descriptor, a \<^verbatim>\<open>uintptr\<close> (64 bits on wasm, as \<^verbatim>\<open>int\<close> is).
\<close>

record sock =
  ctype :: conn_type
  SyscallConn_err :: "error option"
  Control_result :: control
  fd :: "64 word"

text \<open>The struct \<^verbatim>\<open>conn\<close>: the embedded connection and the two stored addresses.\<close>

datatype 'c conn = conn (Conn: 'c) (laddr: net_Addr) (raddr: net_Addr)



text \<open>The interface \<^verbatim>\<open>net.Conn\<close>: nil, a connection, or a \<^verbatim>\<open>*conn\<close>.\<close>

datatype net_Conn = NilConn | Sock sock | PtrConn "net_Conn conn"

text \<open>
  The type assertion \<^verbatim>\<open>c.(syscall.Conn)\<close>. The struct \<^verbatim>\<open>conn\<close> embeds the
  interface \<^verbatim>\<open>net.Conn\<close>, so it has no method \<^verbatim>\<open>SyscallConn\<close>.
\<close>

fun is_syscall_Conn :: "net_Conn \<Rightarrow> bool" where
  "is_syscall_Conn NilConn = False"
| "is_syscall_Conn (Sock s) = (ctype s \<noteq> OtherConn)"
| "is_syscall_Conn (PtrConn c) = False"

text \<open>
  Modelled from the spec: \<^verbatim>\<open>getsockname\<close> and \<^verbatim>\<open>getpeername\<close> are in another
  file of the package. The spec gives \<open>get_local_name(descriptor) \<rightarrow> raw | error\<close> and
  \<open>get_peer_name(descriptor) \<rightarrow> raw | error\<close>; \<^verbatim>\<open>makeConn\<close> takes them as a
  parameter.
\<close>

record syscalls =
  getsockname :: "int \<Rightarrow> sockaddr \<times> error option"
  getpeername :: "int \<Rightarrow> sockaddr \<times> error option"

text \<open>
  The state the function literal of \<^verbatim>\<open>makeConn\<close> works on: the captured variables
  \<^verbatim>\<open>err\<close>, \<^verbatim>\<open>laddr\<close> and \<^verbatim>\<open>raddr\<close>, and the operations issued so far.
\<close>

type_synonym captured = "(error option \<times> net_Addr \<times> net_Addr) \<times> event list"

definition closure :: "syscalls \<Rightarrow> net_Conn \<Rightarrow> 64 word \<Rightarrow> captured \<Rightarrow> captured" where
  "closure sys c fd' st =
     (case st of ((err, la, ra), t) \<Rightarrow>
        (let (addr, err1) = getsockname sys (sint fd');
             t1 = t @ [EvGetsockname (sint fd')]
         in if err1 \<noteq> None then ((err1, la, ra), t1)
            else
              (let (peer, err2) = getpeername sys (sint fd');
                   t2 = t1 @ [EvGetpeername (sint fd')]
               in if err2 \<noteq> None then ((err2, la, ra), t2)
                  else
                    (case c of
                       Sock s \<Rightarrow>
                         (case ctype s of
                            UnixConn \<Rightarrow>
                              ((err2, sockaddrToUnixAddr addr, sockaddrToUnixAddr peer), t2)
                          | UDPConn \<Rightarrow>
                              ((err2, sockaddrToUDPAddr addr, sockaddrToUDPAddr peer), t2)
                          | TCPConn \<Rightarrow>
                              ((err2, sockaddrToTCPAddr addr, sockaddrToTCPAddr peer), t2)
                          | _ \<Rightarrow> ((err2, la, ra), t2))
                     | _ \<Rightarrow> ((err2, la, ra), t2)))))"

definition Control :: "sock \<Rightarrow> (64 word \<Rightarrow> captured \<Rightarrow> captured) \<Rightarrow> captured \<Rightarrow> error option \<times> captured" where
  "Control s f st =
     (case Control_result s of
        Control_fails e \<Rightarrow> (Some e, st)
      | Control_invokes \<Rightarrow> (None, f (fd s) st))"

definition makeConn :: "syscalls \<Rightarrow> net_Conn \<Rightarrow> event list \<Rightarrow> (net_Conn \<times> error option) \<times> event list" where
  "makeConn sys c t =
     (if \<not> is_syscall_Conn c then ((c, None), t)
      else
        (case c of
           Sock s \<Rightarrow>
             (case SyscallConn_err s of
                Some e \<Rightarrow> ((NilConn, Some e), t @ [EvClose])
              | None \<Rightarrow>
                  (case Control s (closure sys c) ((None, NilAddr, NilAddr), t) of
                     (rawConnErr, (err, la, ra), t1) \<Rightarrow>
                       (let err' = (if err = None then rawConnErr else err)
                        in if err' \<noteq> None then ((NilConn, err'), t1 @ [EvClose])
                           else ((PtrConn (conn c la ra), None), t1))))
         | _ \<Rightarrow> ((c, None), t)))"

text \<open>The number of times the connection has been closed.\<close>

definition closes :: "event list \<Rightarrow> nat" where
  "closes t = count_list t EvClose"

section \<open>The resolver override\<close>

text \<open>
  A dial function takes the context, the network and the address, and works on the
  operations issued so far. The function \<^verbatim>\<open>DialContext\<close> that \<^verbatim>\<open>init\<close> installs
  in the HTTP transport is in another file of the package: \<^verbatim>\<open>init\<close> takes it as a
  parameter. The globals are the \<^verbatim>\<open>Dial\<close> field of \<^verbatim>\<open>net.DefaultResolver\<close>,
  whether \<^verbatim>\<open>http.DefaultTransport\<close> is a \<^verbatim>\<open>*http.Transport\<close>, and the
  \<^verbatim>\<open>DialContext\<close> field of that transport.
\<close>

type_synonym 'ctx dial = "'ctx \<Rightarrow> string \<Rightarrow> string \<Rightarrow> event list \<Rightarrow> (net_Conn \<times> error option) \<times> event list"

definition dialResolverNotSupported :: "'ctx dial" where
  "dialResolverNotSupported ctx netw addr t =
     ((NilConn, Some (errorString ''net.Resolver not supported on GOOS=wasip1'')), t)"

record 'ctx globals =
  DefaultResolver_Dial :: "'ctx dial option"
  DefaultTransport_is_Transport :: bool
  DefaultTransport_DialContext :: "'ctx dial option"

definition init :: "'ctx dial \<Rightarrow> 'ctx globals \<Rightarrow> 'ctx globals" where
  "init DialContext g =
     (let g1 = g\<lparr>DefaultResolver_Dial := Some dialResolverNotSupported\<rparr>
      in if DefaultTransport_is_Transport g1
         then g1\<lparr>DefaultTransport_DialContext := Some DialContext\<rparr>
         else g1)"

section \<open>Properties of To4 and of the encoder\<close>

lemma To4_four: "length bs = 4 \<Longrightarrow> To4 (Some bs) = Some bs"
  by (simp add: To4_def len_def IPv4len_def)

lemma To4_mapped: "length bs = 4 \<Longrightarrow> To4 (Some (v4InV6Prefix @ bs)) = Some bs"
  by (simp add: To4_def len_def elems_def IPv4len_def IPv6len_def v4InV6Prefix_def)

lemma To4_Some_length: "To4 ip = Some v \<Longrightarrow> length v = 4"
  by (auto simp: To4_def len_def elems_def IPv4len_def IPv6len_def split: if_splits option.splits)

lemma To4_nil: "To4 None = None"
  by (simp add: To4_def len_def elems_def IPv4len_def IPv6len_def)

lemma toArray_To4: "To4 ip = Some v \<Longrightarrow> toArray 4 (Some v) = Some v"
  by (simp add: toArray_def len_def elems_def To4_Some_length)

lemma toArray_sixteen: "length bs = 16 \<Longrightarrow> toArray 16 (Some bs) = Some bs"
  by (simp add: toArray_def len_def elems_def)

lemma socketAddress_TCP_v4:
  "To4 ip = Some v \<Longrightarrow> socketAddress (TCPAddr ip p z) = Returns (SockaddrInet4 v p, None)"
  by (simp add: socketAddress_def toArray_To4)

lemma socketAddress_UDP_v4:
  "To4 ip = Some v \<Longrightarrow> socketAddress (UDPAddr ip p z) = Returns (SockaddrInet4 v p, None)"
  by (simp add: socketAddress_def toArray_To4)

lemma socketAddress_IP_v4:
  "To4 ip = Some v \<Longrightarrow> socketAddress (IPAddr ip z) = Returns (SockaddrInet4 v 0, None)"
  by (simp add: socketAddress_def toArray_To4)

lemma socketAddress_TCP_v6:
  "To4 (Some bs) = None \<Longrightarrow> length bs = 16 \<Longrightarrow>
   socketAddress (TCPAddr (Some bs) p z) = Returns (SockaddrInet6 bs p, None)"
  by (simp add: socketAddress_def toArray_sixteen len_def IPv6len_def)

lemma socketAddress_UDP_v6:
  "To4 (Some bs) = None \<Longrightarrow> length bs = 16 \<Longrightarrow>
   socketAddress (UDPAddr (Some bs) p z) = Returns (SockaddrInet6 bs p, None)"
  by (simp add: socketAddress_def toArray_sixteen len_def IPv6len_def)

lemma socketAddress_IP_v6:
  "To4 (Some bs) = None \<Longrightarrow> length bs = 16 \<Longrightarrow>
   socketAddress (IPAddr (Some bs) z) = Returns (SockaddrInet6 bs 0, None)"
  by (simp add: socketAddress_def toArray_sixteen len_def IPv6len_def)

lemma socketAddress_unsupported:
  "To4 ip = None \<Longrightarrow> len ip \<noteq> 16 \<Longrightarrow>
     socketAddress (TCPAddr ip p z) =
       Returns (NilSockaddr, Some (AddrError ''unsupported address type'' (TCPAddr ip p z)))
   \<and> socketAddress (UDPAddr ip p z) =
       Returns (NilSockaddr, Some (AddrError ''unsupported address type'' (UDPAddr ip p z)))
   \<and> socketAddress (IPAddr ip z) =
       Returns (NilSockaddr, Some (AddrError ''unsupported address type'' (IPAddr ip z)))"
  by (simp add: socketAddress_def IPv6len_def)

lemma roundtrip_TCP_v4:
  "To4 ip = Some v \<Longrightarrow> roundtrip sockaddrToTCPAddr (TCPAddr ip p z) = Some (TCPAddr (Some v) p '''')"
  by (simp add: roundtrip_def socketAddress_TCP_v4 sockaddrToTCPAddr_def)

lemma roundtrip_UDP_v4:
  "To4 ip = Some v \<Longrightarrow> roundtrip sockaddrToUDPAddr (UDPAddr ip p z) = Some (UDPAddr (Some v) p '''')"
  by (simp add: roundtrip_def socketAddress_UDP_v4 sockaddrToUDPAddr_def)

lemma roundtrip_TCP_v6:
  "To4 (Some bs) = None \<Longrightarrow> length bs = 16 \<Longrightarrow>
   roundtrip sockaddrToTCPAddr (TCPAddr (Some bs) p z) = Some (TCPAddr (Some bs) p '''')"
  by (simp add: roundtrip_def socketAddress_TCP_v6 sockaddrToTCPAddr_def)

lemma roundtrip_UDP_v6:
  "To4 (Some bs) = None \<Longrightarrow> length bs = 16 \<Longrightarrow>
   roundtrip sockaddrToUDPAddr (UDPAddr (Some bs) p z) = Some (UDPAddr (Some bs) p '''')"
  by (simp add: roundtrip_def socketAddress_UDP_v6 sockaddrToUDPAddr_def)

lemma roundtrip_Unix:
  "roundtrip sockaddrToUnixAddr (UnixAddr name' net) = Some (UnixAddr name' ''unix'')"
  by (simp add: roundtrip_def socketAddress_def)

lemma family_To4:
  "To4 ip \<noteq> None \<Longrightarrow>
     family k (TCPAddr ip p z) = AF_INET k
   \<and> family k (UDPAddr ip p z) = AF_INET k
   \<and> family k (IPAddr ip z) = AF_INET k"
  by (simp add: family_def)

lemma socketType_Returns:
  "Addr_Network addr = Returns n \<Longrightarrow>
   socketType k addr =
     (if n = ''tcp'' \<or> n = ''unix'' then Returns (SOCK_STREAM k, None)
      else if n = ''udp'' \<or> n = ''unixgram'' then Returns (SOCK_DGRAM k, None)
      else Returns (- 1, Some EPROTOTYPE))"
  by (simp add: socketType_def)

section \<open>Properties of makeConn\<close>

lemma closure_local_fails:
  "getsockname sys (sint f) = (a, Some e) \<Longrightarrow>
   closure sys c f ((err, la, ra), t) = ((Some e, la, ra), t @ [EvGetsockname (sint f)])"
  by (simp add: closure_def)

lemma closure_peer_fails:
  "getsockname sys (sint f) = (a, None) \<Longrightarrow> getpeername sys (sint f) = (b, Some e) \<Longrightarrow>
   closure sys c f ((err, la, ra), t) =
     ((Some e, la, ra), t @ [EvGetsockname (sint f), EvGetpeername (sint f)])"
  by (simp add: closure_def)


lemma makeConn_invokes:
  "ctype s \<noteq> OtherConn \<Longrightarrow> SyscallConn_err s = None \<Longrightarrow> Control_result s = Control_invokes \<Longrightarrow>
   closure sys (Sock s) (fd s) ((None, NilAddr, NilAddr), t) = ((err, la, ra), t1) \<Longrightarrow>
   makeConn sys (Sock s) t =
     (if err \<noteq> None then ((NilConn, err), t1 @ [EvClose])
      else ((PtrConn (conn (Sock s) la ra), None), t1))"
  by (simp add: makeConn_def Control_def)

lemma closes_append: "closes (t @ u) = closes t + closes u"
  by (simp add: closes_def)

lemma closes_simps:
  "closes [] = 0" "closes (EvClose # t) = Suc (closes t)"
  "closes (EvGetsockname n # t) = closes t" "closes (EvGetpeername n # t) = closes t"
  by (simp_all add: closes_def)

section \<open>The properties of the specification\<close>

text \<open>
  C1, as the code has it. A sockaddr of the wrong family never raises an error: the
  decoders are total. \<^verbatim>\<open>sockaddrToUnixAddr\<close> returns the nil \<^verbatim>\<open>net.Addr\<close>
  for an Inet4 or Inet6 sockaddr. \<^verbatim>\<open>sockaddrToTCPAddr\<close> and
  \<^verbatim>\<open>sockaddrToUDPAddr\<close> return, for a unix sockaddr, a non-nil address whose IP
  is nil, whose port is 0 and whose zone is empty.
\<close>

theorem cross_family_decode:
  "sockaddrToUnixAddr (SockaddrInet4 a p) = NilAddr
   \<and> sockaddrToUnixAddr (SockaddrInet6 a p) = NilAddr
   \<and> sockaddrToTCPAddr (SockaddrUnix n) = TCPAddr None 0 ''''
   \<and> sockaddrToUDPAddr (SockaddrUnix n) = UDPAddr None 0 ''''"
  by (simp add: sockaddrToTCPAddr_def sockaddrToUDPAddr_def)

text \<open>
  C1 as stated fails: decoding a unix sockaddr as a TCP or UDP address is not the nil
  \<^verbatim>\<open>net.Addr\<close>.
\<close>

theorem cross_family_decode_counterexample:
  "sockaddrToTCPAddr (SockaddrUnix ''/tmp/sock'') \<noteq> NilAddr
   \<and> sockaddrToUDPAddr (SockaddrUnix ''/tmp/sock'') \<noteq> NilAddr"
  by (simp add: sockaddrToTCPAddr_def sockaddrToUDPAddr_def)

text \<open>
  C2, as the code has it. The round trip is the identity on a TCP or UDP endpoint whose
  IP is stored in exactly 4 bytes, or in 16 bytes that are not an IPv4-mapped address,
  and whose zone is empty, and on a unix endpoint whose \<^verbatim>\<open>Net\<close> is
  \<^verbatim>\<open>"unix"\<close>. In general the port and the unix name are kept, an address that
  \<^verbatim>\<open>To4\<close> accepts comes back in its 4-byte form, the zone comes back empty and
  the \<^verbatim>\<open>Net\<close> of a unix endpoint comes back as \<^verbatim>\<open>"unix"\<close>.
\<close>

theorem roundtrip_amended:
  "(length b4 = 4 \<longrightarrow>
      roundtrip sockaddrToTCPAddr (TCPAddr (Some b4) p '''') = Some (TCPAddr (Some b4) p '''')
    \<and> roundtrip sockaddrToUDPAddr (UDPAddr (Some b4) p '''') = Some (UDPAddr (Some b4) p ''''))
   \<and> (length b6 = 16 \<and> To4 (Some b6) = None \<longrightarrow>
      roundtrip sockaddrToTCPAddr (TCPAddr (Some b6) p '''') = Some (TCPAddr (Some b6) p '''')
    \<and> roundtrip sockaddrToUDPAddr (UDPAddr (Some b6) p '''') = Some (UDPAddr (Some b6) p ''''))
   \<and> roundtrip sockaddrToUnixAddr (UnixAddr name' ''unix'') = Some (UnixAddr name' ''unix'')
   \<and> (To4 ip = Some v \<longrightarrow>
      roundtrip sockaddrToTCPAddr (TCPAddr ip p z) = Some (TCPAddr (Some v) p '''')
    \<and> roundtrip sockaddrToUDPAddr (UDPAddr ip p z) = Some (UDPAddr (Some v) p ''''))
   \<and> (length b6 = 16 \<and> To4 (Some b6) = None \<longrightarrow>
      roundtrip sockaddrToTCPAddr (TCPAddr (Some b6) p z) = Some (TCPAddr (Some b6) p '''')
    \<and> roundtrip sockaddrToUDPAddr (UDPAddr (Some b6) p z) = Some (UDPAddr (Some b6) p ''''))
   \<and> roundtrip sockaddrToUnixAddr (UnixAddr name' net) = Some (UnixAddr name' ''unix'')"
  by (simp add: roundtrip_TCP_v4 roundtrip_UDP_v4 roundtrip_TCP_v6 roundtrip_UDP_v6
      roundtrip_Unix To4_four)

theorem roundtrip_amended_witness:
  "roundtrip sockaddrToTCPAddr (TCPAddr (Some [192, 0, 2, 1]) 80 '''') =
     Some (TCPAddr (Some [192, 0, 2, 1]) 80 '''')
   \<and> roundtrip sockaddrToUDPAddr (UDPAddr (Some [192, 0, 2, 1]) 80 '''') =
     Some (UDPAddr (Some [192, 0, 2, 1]) 80 '''')
   \<and> roundtrip sockaddrToTCPAddr
       (TCPAddr (Some [0x20, 1, 0xd, 0xb8, 0, 0, 0, 0, 0, 0, 0, 0, 0, 0, 0, 1]) 80 '''') =
     Some (TCPAddr (Some [0x20, 1, 0xd, 0xb8, 0, 0, 0, 0, 0, 0, 0, 0, 0, 0, 0, 1]) 80 '''')
   \<and> roundtrip sockaddrToUnixAddr (UnixAddr ''/tmp/sock'' ''unix'') =
     Some (UnixAddr ''/tmp/sock'' ''unix'')
   \<and> roundtrip sockaddrToTCPAddr (TCPAddr (Some (v4InV6Prefix @ [192, 0, 2, 1])) 80 ''eth0'') =
     Some (TCPAddr (Some [192, 0, 2, 1]) 80 '''')"
proof -
  have h4: "length [192, 0, 2, 1 :: byte] = 4"
    by simp
  have h6: "length [0x20, 1, 0xd, 0xb8, 0, 0, 0, 0, 0, 0, 0, 0, 0, 0, 0, 1 :: byte] = 16
      \<and> To4 (Some [0x20, 1, 0xd, 0xb8, 0, 0, 0, 0, 0, 0, 0, 0, 0, 0, 0, 1]) = None"
    by (simp add: To4_def len_def elems_def IPv4len_def IPv6len_def)
  have hm: "To4 (Some (v4InV6Prefix @ [192, 0, 2, 1])) = Some [192, 0, 2, 1]"
    by (simp add: To4_mapped)
  show ?thesis
    using h4 h6 hm
      roundtrip_amended [of "[192, 0, 2, 1]" 80
        "[0x20, 1, 0xd, 0xb8, 0, 0, 0, 0, 0, 0, 0, 0, 0, 0, 0, 1]" "''/tmp/sock''"
        "Some (v4InV6Prefix @ [192, 0, 2, 1])" "[192, 0, 2, 1]" "''eth0''" "''unix''"]
    by blast
qed

text \<open>
  C2 as stated fails: an IPv4 endpoint stored in 16 bytes (what \<^verbatim>\<open>net.IPv4\<close> and
  \<^verbatim>\<open>net.ParseIP\<close> build) comes back in 4 bytes, an IPv6 endpoint with a zone
  comes back without it, and a \<^verbatim>\<open>unixgram\<close> endpoint comes back as \<^verbatim>\<open>unix\<close>.
\<close>

theorem roundtrip_counterexample:
  "roundtrip sockaddrToTCPAddr (TCPAddr (Some (v4InV6Prefix @ [192, 0, 2, 1])) 80 '''')
     \<noteq> Some (TCPAddr (Some (v4InV6Prefix @ [192, 0, 2, 1])) 80 '''')
   \<and> roundtrip sockaddrToTCPAddr
       (TCPAddr (Some [0xfe, 0x80, 0, 0, 0, 0, 0, 0, 0, 0, 0, 0, 0, 0, 0, 1]) 443 ''eth0'')
     \<noteq> Some (TCPAddr (Some [0xfe, 0x80, 0, 0, 0, 0, 0, 0, 0, 0, 0, 0, 0, 0, 0, 1]) 443 ''eth0'')
   \<and> roundtrip sockaddrToUnixAddr (UnixAddr ''/tmp/sock'' ''unixgram'')
     \<noteq> Some (UnixAddr ''/tmp/sock'' ''unixgram'')"
proof -
  have a: "roundtrip sockaddrToTCPAddr (TCPAddr (Some (v4InV6Prefix @ [192, 0, 2, 1])) 80 '''')
      = Some (TCPAddr (Some [192, 0, 2, 1]) 80 '''')"
    by (simp add: roundtrip_TCP_v4 To4_mapped)
  have "To4 (Some [0xfe, 0x80, 0, 0, 0, 0, 0, 0, 0, 0, 0, 0, 0, 0, 0, 1]) = None"
    by (simp add: To4_def len_def elems_def IPv4len_def IPv6len_def)
  then have b: "roundtrip sockaddrToTCPAddr
       (TCPAddr (Some [0xfe, 0x80, 0, 0, 0, 0, 0, 0, 0, 0, 0, 0, 0, 0, 0, 1]) 443 ''eth0'')
      = Some (TCPAddr (Some [0xfe, 0x80, 0, 0, 0, 0, 0, 0, 0, 0, 0, 0, 0, 0, 0, 1]) 443 '''')"
    by (simp add: roundtrip_TCP_v6)
  have c: "roundtrip sockaddrToUnixAddr (UnixAddr ''/tmp/sock'' ''unixgram'')
      = Some (UnixAddr ''/tmp/sock'' ''unix'')"
    by (simp add: roundtrip_Unix)
  show ?thesis
    unfolding a b c by (simp add: v4InV6Prefix_def)
qed

text \<open>
  C3. On a connection that implements \<^verbatim>\<open>syscall.Conn\<close> and whose descriptor is
  reached, when \<^verbatim>\<open>getsockname\<close> fails, or \<^verbatim>\<open>getpeername\<close> fails after
  \<^verbatim>\<open>getsockname\<close> succeeded, \<^verbatim>\<open>makeConn\<close> returns the nil connection (no
  overlay) with the error of the failed query, and closes the connection exactly once,
  as its last operation.
\<close>

theorem makeConn_query_failure_closes_once:
  "(ctype s \<noteq> OtherConn \<and> SyscallConn_err s = None \<and> Control_result s = Control_invokes
      \<and> getsockname sys (sint (fd s)) = (a, Some e) \<longrightarrow>
        makeConn sys (Sock s) t =
          ((NilConn, Some e), t @ [EvGetsockname (sint (fd s)), EvClose])
      \<and> closes (snd (makeConn sys (Sock s) t)) = closes t + 1)
   \<and> (ctype s' \<noteq> OtherConn \<and> SyscallConn_err s' = None \<and> Control_result s' = Control_invokes
      \<and> getsockname sys' (sint (fd s')) = (a', None)
      \<and> getpeername sys' (sint (fd s')) = (b', Some e') \<longrightarrow>
        makeConn sys' (Sock s') t =
          ((NilConn, Some e'),
           t @ [EvGetsockname (sint (fd s')), EvGetpeername (sint (fd s')), EvClose])
      \<and> closes (snd (makeConn sys' (Sock s') t)) = closes t + 1)"
proof (intro conjI impI)
  assume h: "ctype s \<noteq> OtherConn \<and> SyscallConn_err s = None
      \<and> Control_result s = Control_invokes \<and> getsockname sys (sint (fd s)) = (a, Some e)"
  then have c: "closure sys (Sock s) (fd s) ((None, NilAddr, NilAddr), t)
      = ((Some e, NilAddr, NilAddr), t @ [EvGetsockname (sint (fd s))])"
    by (simp add: closure_local_fails)
  from h show m: "makeConn sys (Sock s) t =
      ((NilConn, Some e), t @ [EvGetsockname (sint (fd s)), EvClose])"
    by (simp add: makeConn_invokes [OF _ _ _ c])
  show "closes (snd (makeConn sys (Sock s) t)) = closes t + 1"
    by (simp add: m closes_append closes_simps)
next
  assume h: "ctype s' \<noteq> OtherConn \<and> SyscallConn_err s' = None
      \<and> Control_result s' = Control_invokes \<and> getsockname sys' (sint (fd s')) = (a', None)
      \<and> getpeername sys' (sint (fd s')) = (b', Some e')"
  then have c: "closure sys' (Sock s') (fd s') ((None, NilAddr, NilAddr), t)
      = ((Some e', NilAddr, NilAddr),
         t @ [EvGetsockname (sint (fd s')), EvGetpeername (sint (fd s'))])"
    by (simp add: closure_peer_fails)
  from h show m: "makeConn sys' (Sock s') t =
      ((NilConn, Some e'),
       t @ [EvGetsockname (sint (fd s')), EvGetpeername (sint (fd s')), EvClose])"
    by (simp add: makeConn_invokes [OF _ _ _ c])
  show "closes (snd (makeConn sys' (Sock s') t)) = closes t + 1"
    by (simp add: m closes_append closes_simps)
qed

theorem makeConn_query_failure_closes_once_witness:
  "makeConn
     \<lparr>getsockname = (\<lambda>n. (NilSockaddr, Some (OSError 8))),
      getpeername = (\<lambda>n. (SockaddrInet4 [127, 0, 0, 1] 80, None))\<rparr>
     (Sock \<lparr>ctype = TCPConn, SyscallConn_err = None, Control_result = Control_invokes, fd = 3\<rparr>)
     [] = ((NilConn, Some (OSError 8)), [EvGetsockname 3, EvClose])
   \<and> makeConn
     \<lparr>getsockname = (\<lambda>n. (SockaddrInet4 [127, 0, 0, 1] 8080, None)),
      getpeername = (\<lambda>n. (NilSockaddr, Some (OSError 53)))\<rparr>
     (Sock \<lparr>ctype = TCPConn, SyscallConn_err = None, Control_result = Control_invokes, fd = 3\<rparr>)
     [] = ((NilConn, Some (OSError 53)), [EvGetsockname 3, EvGetpeername 3, EvClose])
   \<and> closes [EvGetsockname 3, EvGetpeername 3, EvClose] = 1"
  using makeConn_query_failure_closes_once
    [of "\<lparr>ctype = TCPConn, SyscallConn_err = None, Control_result = Control_invokes, fd = 3\<rparr>"
      "\<lparr>getsockname = (\<lambda>n. (NilSockaddr, Some (OSError 8))),
        getpeername = (\<lambda>n. (SockaddrInet4 [127, 0, 0, 1] 80, None))\<rparr>"
      NilSockaddr "OSError 8" "[]"
      "\<lparr>ctype = TCPConn, SyscallConn_err = None, Control_result = Control_invokes, fd = 3\<rparr>"
      "\<lparr>getsockname = (\<lambda>n. (SockaddrInet4 [127, 0, 0, 1] 8080, None)),
        getpeername = (\<lambda>n. (NilSockaddr, Some (OSError 53)))\<rparr>"
      "SockaddrInet4 [127, 0, 0, 1] 8080" NilSockaddr "OSError 53"]
  by (simp add: closes_simps)

text \<open>
  C4. \<^verbatim>\<open>init\<close> installs \<^verbatim>\<open>dialResolverNotSupported\<close> as the dial function of
  the default resolver. For every context, network and address it returns the nil
  connection and the error \<^verbatim>\<open>net.Resolver not supported on GOOS=wasip1\<close>, and
  issues no operation on any socket.
\<close>

theorem resolver_override_always_fails:
  "dialResolverNotSupported ctx netw addr t =
     ((NilConn, Some (errorString ''net.Resolver not supported on GOOS=wasip1'')), t)
   \<and> DefaultResolver_Dial (init DialContext g) = Some dialResolverNotSupported
   \<and> fst (fst (dialResolverNotSupported ctx netw addr t)) = NilConn
   \<and> snd (fst (dialResolverNotSupported ctx netw addr t)) \<noteq> None
   \<and> snd (dialResolverNotSupported ctx netw addr t) = t"
  by (simp add: dialResolverNotSupported_def init_def Let_def)

text \<open>
  C5. \<^verbatim>\<open>family\<close> returns \<^verbatim>\<open>AF_INET\<close> for every TCP, UDP or IP address
  whose IP \<^verbatim>\<open>To4\<close> accepts: an address of 4 bytes, stored in 4 bytes or in 16
  bytes behind the IPv4-mapped prefix. It returns \<^verbatim>\<open>AF_INET\<close> too when the IP is
  nil and when the address is the nil interface.
\<close>

theorem family_four_bytes_is_AF_INET:
  "(To4 ip \<noteq> None \<longrightarrow>
      family k (TCPAddr ip p z) = AF_INET k
    \<and> family k (UDPAddr ip p z) = AF_INET k
    \<and> family k (IPAddr ip z) = AF_INET k)
   \<and> (length bs = 4 \<longrightarrow>
      To4 (Some bs) = Some bs \<and> To4 (Some (v4InV6Prefix @ bs)) = Some bs
    \<and> family k (TCPAddr (Some bs) p z) = AF_INET k
    \<and> family k (TCPAddr (Some (v4InV6Prefix @ bs)) p z) = AF_INET k
    \<and> family k (UDPAddr (Some bs) p z) = AF_INET k
    \<and> family k (UDPAddr (Some (v4InV6Prefix @ bs)) p z) = AF_INET k
    \<and> family k (IPAddr (Some bs) z) = AF_INET k
    \<and> family k (IPAddr (Some (v4InV6Prefix @ bs)) z) = AF_INET k)
   \<and> family k (TCPAddr None p z) = AF_INET k
   \<and> family k (UDPAddr None p z) = AF_INET k
   \<and> family k (IPAddr None z) = AF_INET k
   \<and> family k NilAddr = AF_INET k"
proof -
  have nil: "family k (TCPAddr None p z) = AF_INET k \<and> family k (UDPAddr None p z) = AF_INET k
      \<and> family k (IPAddr None z) = AF_INET k \<and> family k NilAddr = AF_INET k"
    by (simp add: family_def To4_nil len_def IPv6len_def)
  show ?thesis
    using nil by (simp add: family_To4 To4_four To4_mapped)
qed

theorem family_four_bytes_is_AF_INET_witness:
  "\<forall>k. family k (TCPAddr (Some [192, 0, 2, 1]) 80 '''') = AF_INET k
     \<and> family k (TCPAddr (Some (v4InV6Prefix @ [192, 0, 2, 1])) 80 '''') = AF_INET k
     \<and> family k (IPAddr (Some (v4InV6Prefix @ [192, 0, 2, 1])) '''') = AF_INET k"
proof -
  have h: "length [192, 0, 2, 1 :: byte] = 4"
    by simp
  have m: "To4 (Some (v4InV6Prefix @ [192, 0, 2, 1])) \<noteq> None"
    by (simp add: To4_mapped)
  show ?thesis
    using h m
      family_four_bytes_is_AF_INET [of "Some (v4InV6Prefix @ [192, 0, 2, 1])" _ 80 "''''"
        "[192, 0, 2, 1]"]
    by blast
qed

text \<open>
  C6. \<^verbatim>\<open>socketAddress\<close> maps a unix address to the unix sockaddr of its name; a
  TCP, UDP or IP address that \<^verbatim>\<open>To4\<close> accepts to the Inet4 sockaddr of the 4-byte
  form and the port (0 for an IP address, which has none); otherwise one of exactly 16
  bytes to the Inet6 sockaddr of these bytes and the port; any other to a nil sockaddr
  and the \<^verbatim>\<open>net.AddrError\<close> \<^verbatim>\<open>unsupported address type\<close>.
\<close>

theorem socketAddress_encodes:
  "socketAddress (UnixAddr name' net) = Returns (SockaddrUnix name', None)
   \<and> (To4 ip4 = Some v4 \<longrightarrow>
        length v4 = 4
      \<and> socketAddress (TCPAddr ip4 p z) = Returns (SockaddrInet4 v4 p, None)
      \<and> socketAddress (UDPAddr ip4 p z) = Returns (SockaddrInet4 v4 p, None)
      \<and> socketAddress (IPAddr ip4 z) = Returns (SockaddrInet4 v4 0, None))
   \<and> (To4 (Some b6) = None \<and> length b6 = 16 \<longrightarrow>
        socketAddress (TCPAddr (Some b6) p z) = Returns (SockaddrInet6 b6 p, None)
      \<and> socketAddress (UDPAddr (Some b6) p z) = Returns (SockaddrInet6 b6 p, None)
      \<and> socketAddress (IPAddr (Some b6) z) = Returns (SockaddrInet6 b6 0, None))
   \<and> (To4 ipx = None \<and> len ipx \<noteq> 16 \<longrightarrow>
        socketAddress (TCPAddr ipx p z) =
          Returns (NilSockaddr, Some (AddrError ''unsupported address type'' (TCPAddr ipx p z)))
      \<and> socketAddress (UDPAddr ipx p z) =
          Returns (NilSockaddr, Some (AddrError ''unsupported address type'' (UDPAddr ipx p z)))
      \<and> socketAddress (IPAddr ipx z) =
          Returns (NilSockaddr, Some (AddrError ''unsupported address type'' (IPAddr ipx z))))"
proof -
  have unix: "socketAddress (UnixAddr name' net) = Returns (SockaddrUnix name', None)"
    by (simp add: socketAddress_def)
  show ?thesis
    by (simp add: unix To4_Some_length socketAddress_TCP_v4 socketAddress_UDP_v4
        socketAddress_IP_v4 socketAddress_TCP_v6 socketAddress_UDP_v6 socketAddress_IP_v6
        socketAddress_unsupported)
qed

theorem socketAddress_encodes_witness:
  "socketAddress (UnixAddr ''/tmp/sock'' ''unix'') = Returns (SockaddrUnix ''/tmp/sock'', None)
   \<and> socketAddress (TCPAddr (Some [192, 0, 2, 1]) 80 '''') =
       Returns (SockaddrInet4 [192, 0, 2, 1] 80, None)
   \<and> socketAddress (UDPAddr (Some (v4InV6Prefix @ [192, 0, 2, 1])) 80 '''') =
       Returns (SockaddrInet4 [192, 0, 2, 1] 80, None)
   \<and> socketAddress (TCPAddr (Some [0x20, 1, 0xd, 0xb8, 0, 0, 0, 0, 0, 0, 0, 0, 0, 0, 0, 1]) 443 '''') =
       Returns (SockaddrInet6 [0x20, 1, 0xd, 0xb8, 0, 0, 0, 0, 0, 0, 0, 0, 0, 0, 0, 1] 443, None)
   \<and> socketAddress (TCPAddr None 80 '''') =
       Returns (NilSockaddr, Some (AddrError ''unsupported address type'' (TCPAddr None 80 '''')))
   \<and> socketAddress (TCPAddr (Some [192, 0, 2]) 80 '''') =
       Returns (NilSockaddr,
         Some (AddrError ''unsupported address type'' (TCPAddr (Some [192, 0, 2]) 80 '''')))"
proof -
  have h4: "To4 (Some [192, 0, 2, 1]) = Some [192, 0, 2, 1]"
    by (simp add: To4_four)
  have hm: "To4 (Some (v4InV6Prefix @ [192, 0, 2, 1])) = Some [192, 0, 2, 1]"
    by (simp add: To4_mapped)
  have h6: "To4 (Some [0x20, 1, 0xd, 0xb8, 0, 0, 0, 0, 0, 0, 0, 0, 0, 0, 0, 1]) = None
      \<and> length [0x20, 1, 0xd, 0xb8, 0, 0, 0, 0, 0, 0, 0, 0, 0, 0, 0, 1 :: byte] = 16"
    by (simp add: To4_def len_def elems_def IPv4len_def IPv6len_def)
  have hn: "To4 None = None \<and> len None \<noteq> 16"
    by (simp add: To4_nil len_def)
  have h3: "To4 (Some [192, 0, 2]) = None \<and> len (Some [192, 0, 2]) \<noteq> 16"
    by (simp add: To4_def len_def elems_def IPv4len_def IPv6len_def)
  show ?thesis
    using h4 hm h6 hn h3
      socketAddress_encodes [of "''/tmp/sock''" "''unix''" "Some [192, 0, 2, 1]" "[192, 0, 2, 1]"
        80 "''''" "[0x20, 1, 0xd, 0xb8, 0, 0, 0, 0, 0, 0, 0, 0, 0, 0, 0, 1]" None]
      socketAddress_encodes [of "''/tmp/sock''" "''unix''" "Some (v4InV6Prefix @ [192, 0, 2, 1])"
        "[192, 0, 2, 1]" 80 "''''" "[0x20, 1, 0xd, 0xb8, 0, 0, 0, 0, 0, 0, 0, 0, 0, 0, 0, 1]"
        "Some [192, 0, 2]"]
      socketAddress_encodes [of "''/tmp/sock''" "''unix''" "Some [192, 0, 2, 1]" "[192, 0, 2, 1]"
        443 "''''" "[0x20, 1, 0xd, 0xb8, 0, 0, 0, 0, 0, 0, 0, 0, 0, 0, 0, 1]" None]
    by blast
qed

text \<open>
  C7. \<^verbatim>\<open>socketType\<close> compares the result of \<^verbatim>\<open>addr.Network()\<close> exactly:
  \<^verbatim>\<open>"tcp"\<close> and \<^verbatim>\<open>"unix"\<close> give \<^verbatim>\<open>SOCK_STREAM\<close>, \<^verbatim>\<open>"udp"\<close> and
  \<^verbatim>\<open>"unixgram"\<close> give \<^verbatim>\<open>SOCK_DGRAM\<close>, both with a nil error, and every
  other name gives -1 and the error \<^verbatim>\<open>EPROTOTYPE\<close>.
\<close>

theorem socketType_exact_match:
  "(Addr_Network a1 = Returns n1 \<and> (n1 = ''tcp'' \<or> n1 = ''unix'') \<longrightarrow>
      socketType k a1 = Returns (SOCK_STREAM k, None))
   \<and> (Addr_Network a2 = Returns n2 \<and> (n2 = ''udp'' \<or> n2 = ''unixgram'') \<longrightarrow>
      socketType k a2 = Returns (SOCK_DGRAM k, None))
   \<and> (Addr_Network a3 = Returns n3 \<and> n3 \<noteq> ''tcp'' \<and> n3 \<noteq> ''unix'' \<and> n3 \<noteq> ''udp''
        \<and> n3 \<noteq> ''unixgram'' \<longrightarrow>
      socketType k a3 = Returns (- 1, Some EPROTOTYPE))
   \<and> socketType k (TCPAddr ip p z) = Returns (SOCK_STREAM k, None)
   \<and> socketType k (UDPAddr ip p z) = Returns (SOCK_DGRAM k, None)
   \<and> socketType k (UnixAddr name' ''unix'') = Returns (SOCK_STREAM k, None)
   \<and> socketType k (UnixAddr name' ''unixgram'') = Returns (SOCK_DGRAM k, None)
   \<and> socketType k (IPAddr ip z) = Returns (- 1, Some EPROTOTYPE)"
proof -
  have stream: "Addr_Network a1 = Returns n1 \<and> (n1 = ''tcp'' \<or> n1 = ''unix'') \<longrightarrow>
      socketType k a1 = Returns (SOCK_STREAM k, None)"
    by (auto simp: socketType_Returns)
  have dgram: "Addr_Network a2 = Returns n2 \<and> (n2 = ''udp'' \<or> n2 = ''unixgram'') \<longrightarrow>
      socketType k a2 = Returns (SOCK_DGRAM k, None)"
    by (auto simp: socketType_Returns)
  have other: "Addr_Network a3 = Returns n3 \<and> n3 \<noteq> ''tcp'' \<and> n3 \<noteq> ''unix'' \<and> n3 \<noteq> ''udp''
        \<and> n3 \<noteq> ''unixgram'' \<longrightarrow>
      socketType k a3 = Returns (- 1, Some EPROTOTYPE)"
    by (auto simp: socketType_Returns)
  have types: "socketType k (TCPAddr ip p z) = Returns (SOCK_STREAM k, None)
      \<and> socketType k (UDPAddr ip p z) = Returns (SOCK_DGRAM k, None)
      \<and> socketType k (UnixAddr name' ''unix'') = Returns (SOCK_STREAM k, None)
      \<and> socketType k (UnixAddr name' ''unixgram'') = Returns (SOCK_DGRAM k, None)
      \<and> socketType k (IPAddr ip z) = Returns (- 1, Some EPROTOTYPE)"
    by (simp add: socketType_def)
  from stream dgram other types show ?thesis
    by blast
qed

theorem socketType_exact_match_witness:
  "\<forall>k. socketType k (UnixAddr ''/tmp/sock'' ''unix'') = Returns (SOCK_STREAM k, None)
     \<and> socketType k (UDPAddr None 53 '''') = Returns (SOCK_DGRAM k, None)
     \<and> socketType k (UnixAddr ''/tmp/sock'' ''unixpacket'') = Returns (- 1, Some EPROTOTYPE)
     \<and> socketType k (UnixAddr ''/tmp/sock'' ''UNIX'') = Returns (- 1, Some EPROTOTYPE)
     \<and> socketType k (PtrNetAddr \<lparr>network = ''tcp'', address = ''127.0.0.1:80''\<rparr>) =
         Returns (- 1, Some EPROTOTYPE)"
proof -
  have h1: "Addr_Network (UnixAddr ''/tmp/sock'' ''unix'') = Returns ''unix''"
    by simp
  have h2: "Addr_Network (UDPAddr None 53 '''') = Returns ''udp''"
    by simp
  have h3: "Addr_Network (UnixAddr ''/tmp/sock'' ''unixpacket'') = Returns ''unixpacket''
      \<and> ''unixpacket'' \<noteq> ''tcp'' \<and> ''unixpacket'' \<noteq> ''unix'' \<and> ''unixpacket'' \<noteq> ''udp''
      \<and> ''unixpacket'' \<noteq> ''unixgram''"
    by simp
  have h4: "Addr_Network (UnixAddr ''/tmp/sock'' ''UNIX'') = Returns ''UNIX''
      \<and> ''UNIX'' \<noteq> ''tcp'' \<and> ''UNIX'' \<noteq> ''unix'' \<and> ''UNIX'' \<noteq> ''udp'' \<and> ''UNIX'' \<noteq> ''unixgram''"
    by simp
  have h5: "Addr_Network (PtrNetAddr \<lparr>network = ''tcp'', address = ''127.0.0.1:80''\<rparr>)
        = Returns ''127.0.0.1:80''
      \<and> ''127.0.0.1:80'' \<noteq> ''tcp'' \<and> ''127.0.0.1:80'' \<noteq> ''unix'' \<and> ''127.0.0.1:80'' \<noteq> ''udp''
      \<and> ''127.0.0.1:80'' \<noteq> ''unixgram''"
    by (simp add: netAddr_Network_def)
  have "socketType k (UnixAddr ''/tmp/sock'' ''unix'') = Returns (SOCK_STREAM k, None)
     \<and> socketType k (UDPAddr None 53 '''') = Returns (SOCK_DGRAM k, None)
     \<and> socketType k (UnixAddr ''/tmp/sock'' ''unixpacket'') = Returns (- 1, Some EPROTOTYPE)
     \<and> socketType k (UnixAddr ''/tmp/sock'' ''UNIX'') = Returns (- 1, Some EPROTOTYPE)
     \<and> socketType k (PtrNetAddr \<lparr>network = ''tcp'', address = ''127.0.0.1:80''\<rparr>) =
         Returns (- 1, Some EPROTOTYPE)" for k
    using h1 h2 h3 h4 h5
      socketType_exact_match [of "UnixAddr ''/tmp/sock'' ''unix''" "''unix''" k
        "UDPAddr None 53 ''''" "''udp''" "UnixAddr ''/tmp/sock'' ''unixpacket''" "''unixpacket''"]
      socketType_exact_match [of "UnixAddr ''/tmp/sock'' ''unix''" "''unix''" k
        "UDPAddr None 53 ''''" "''udp''" "UnixAddr ''/tmp/sock'' ''UNIX''" "''UNIX''"]
      socketType_exact_match [of "UnixAddr ''/tmp/sock'' ''unix''" "''unix''" k
        "UDPAddr None 53 ''''" "''udp''"
        "PtrNetAddr \<lparr>network = ''tcp'', address = ''127.0.0.1:80''\<rparr>" "''127.0.0.1:80''"]
    by simp
  then show ?thesis
    by blast
qed

text \<open>
  C8. For a connection that does not implement \<^verbatim>\<open>syscall.Conn\<close>,
  \<^verbatim>\<open>makeConn\<close> returns that connection with a nil error and issues no operation.
\<close>

theorem makeConn_not_syscall_Conn:
  "(\<not> is_syscall_Conn c \<longrightarrow> makeConn sys c t = ((c, None), t))
   \<and> (ctype s = OtherConn \<longrightarrow> makeConn sys (Sock s) t = ((Sock s, None), t))
   \<and> makeConn sys (PtrConn oc) t = ((PtrConn oc, None), t)
   \<and> makeConn sys NilConn t = ((NilConn, None), t)"
  by (simp add: makeConn_def)

theorem makeConn_not_syscall_Conn_witness:
  "\<forall>sys.
     makeConn sys
       (Sock \<lparr>ctype = OtherConn, SyscallConn_err = None, Control_result = Control_invokes, fd = 3\<rparr>)
       [] =
       ((Sock \<lparr>ctype = OtherConn, SyscallConn_err = None, Control_result = Control_invokes,
                fd = 3\<rparr>, None), [])
     \<and> makeConn sys (PtrConn (conn NilConn NilAddr NilAddr)) [] =
         ((PtrConn (conn NilConn NilAddr NilAddr), None), [])"
proof -
  have h: "\<not> is_syscall_Conn
      (Sock \<lparr>ctype = OtherConn, SyscallConn_err = None, Control_result = Control_invokes, fd = 3\<rparr>)"
    by simp
  have "makeConn sys
       (Sock \<lparr>ctype = OtherConn, SyscallConn_err = None, Control_result = Control_invokes, fd = 3\<rparr>)
       [] =
       ((Sock \<lparr>ctype = OtherConn, SyscallConn_err = None, Control_result = Control_invokes,
                fd = 3\<rparr>, None), [])
     \<and> makeConn sys (PtrConn (conn NilConn NilAddr NilAddr)) [] =
         ((PtrConn (conn NilConn NilAddr NilAddr), None), [])" for sys
    using h makeConn_not_syscall_Conn
      [of "Sock \<lparr>ctype = OtherConn, SyscallConn_err = None, Control_result = Control_invokes,
                  fd = 3\<rparr>" sys "[]"
        "\<lparr>ctype = OtherConn, SyscallConn_err = None, Control_result = Control_invokes, fd = 3\<rparr>"
        "conn NilConn NilAddr NilAddr"]
    by simp
  then show ?thesis
    by blast
qed

text \<open>
  C9. Both methods of \<^verbatim>\<open>netAddr\<close>, \<^verbatim>\<open>Network()\<close> and \<^verbatim>\<open>String()\<close>,
  return the field \<^verbatim>\<open>address\<close>; changing the field \<^verbatim>\<open>network\<close> changes
  the result of neither.
\<close>

theorem netAddr_accessors:
  "netAddr_Network na = address na
   \<and> netAddr_String na = address na
   \<and> netAddr_Network na = netAddr_String na
   \<and> netAddr_Network (na\<lparr>network := n\<rparr>) = netAddr_Network na
   \<and> netAddr_String (na\<lparr>network := n\<rparr>) = netAddr_String na
   \<and> Addr_Network (PtrNetAddr na) = Returns (address na)"
  by (simp add: netAddr_Network_def netAddr_String_def)



end
